theory Spec2Isabelle
  imports Main "HOL-Library.Multiset"
begin

section \<open>Data model\<close>

text \<open>
  The documents of the two mongoose models (\<^verbatim>\<open>models/user.model.js\<close>,
  \<^verbatim>\<open>models/note.model.js\<close>). Object ids and strings are \<open>string\<close>; dates are the
  millisecond value of \<^verbatim>\<open>Date.now\<close>. The version key mongoose adds to a document is
  not modelled.
\<close>

record user_doc =
  u_id :: string
  fullName :: string
  email :: string
  password :: string
  u_createdOn :: nat

record note_doc =
  n_id :: string
  title :: string
  content :: string
  tags :: "string list"
  isPinned :: bool
  userId :: string
  n_createdOn :: nat

text \<open>
  A schema path with the options the source gives it. \<open>userSchema\<close> is the schema of
  \<^verbatim>\<open>user.model.js\<close>: four paths, none of them \<^verbatim>\<open>required\<close> or \<^verbatim>\<open>unique\<close>.
\<close>

datatype schema_type = String | Date | Boolean | StringArray

record schema_path =
  p_type :: schema_type
  p_required :: bool
  p_unique :: bool

definition userSchema :: "(string \<times> schema_path) list" where
  "userSchema =
     [(''fullName'', \<lparr>p_type = String, p_required = False, p_unique = False\<rparr>),
      (''email'', \<lparr>p_type = String, p_required = False, p_unique = False\<rparr>),
      (''password'', \<lparr>p_type = String, p_required = False, p_unique = False\<rparr>),
      (''createdOn'', \<lparr>p_type = Date, p_required = False, p_unique = False\<rparr>)]"

definition noteSchema :: "(string \<times> schema_path) list" where
  "noteSchema =
     [(''title'', \<lparr>p_type = String, p_required = True, p_unique = False\<rparr>),
      (''content'', \<lparr>p_type = String, p_required = True, p_unique = False\<rparr>),
      (''tags'', \<lparr>p_type = StringArray, p_required = False, p_unique = False\<rparr>),
      (''isPinned'', \<lparr>p_type = Boolean, p_required = False, p_unique = False\<rparr>),
      (''userId'', \<lparr>p_type = String, p_required = True, p_unique = False\<rparr>),
      (''createdOn'', \<lparr>p_type = Date, p_required = False, p_unique = False\<rparr>)]"

definition unique_paths :: "(string \<times> schema_path) list \<Rightarrow> string list" where
  "unique_paths sch = map fst (filter (\<lambda>kv. p_unique (snd kv)) sch)"

definition user_path :: "string \<Rightarrow> user_doc \<Rightarrow> string" where
  "user_path p u =
     (if p = ''fullName'' then fullName u
      else if p = ''email'' then email u
      else if p = ''password'' then password u
      else [])"

record db =
  db_users :: "user_doc list"
  db_notes :: "note_doc list"

section \<open>The environment of a request\<close>

text \<open>
  What a handler reads from outside the repository. \<open>platform\<close> is fixed for the
  process: the signing secret and the library functions that are taken as parameters
  (\<^verbatim>\<open>isEmail\<close> of express-validator, the digest inside bcrypt, the matcher that
  \<^verbatim>\<open>new RegExp(q, "i")\<close> builds, \<open>None\<close> when the constructor throws).
  \<open>env\<close> is what one request sees: the clock in milliseconds (one reading for the
  whole request), the salt bcrypt draws, the object id mongoose gives a new document,
  and whether a store call throws.
\<close>

datatype store_op = FindOne | Find | Save | DeleteOne

datatype js_error = CastError | DuplicateKey | NetworkError | SyntaxError | JwtError

record platform =
  secret :: string
  isEmail :: "string \<Rightarrow> bool"
  kdf :: "string \<Rightarrow> string \<Rightarrow> string"
  regexp :: "string \<Rightarrow> (string \<Rightarrow> bool) option"

record env =
  clock :: nat
  gen_salt :: string
  gen_id :: string
  store_throws :: "store_op \<Rightarrow> js_error option"

section \<open>Tokens and JSON payloads\<close>

text \<open>
  A token of \<^verbatim>\<open>jwt.sign(payload, secret, {expiresIn: "1h"})\<close>: the payload (the user
  snapshot with the registered claims \<^verbatim>\<open>iat\<close> and \<^verbatim>\<open>exp\<close>, in seconds) and its
  signature. The HMAC is symbolic: the signature of claims \<open>c\<close> under key \<open>k\<close> is the
  term \<open>HS256 k c\<close>. The compact string form of a token is not modelled; a token
  is the structure that string encodes.
\<close>

record claims =
  c_user :: user_doc
  c_iat :: nat
  c_exp :: nat

datatype signature = HS256 string claims

record token =
  t_claims :: claims
  t_sig :: signature

datatype json =
    JNull
  | JBool bool
  | JNum nat
  | JStr string
  | JTok token
  | JArr "json list"
  | JObj "(string \<times> json) list"

record response =
  status :: nat
  body :: "json option"

text \<open>\<^verbatim>\<open>res.status(n).json(j)\<close>; \<^verbatim>\<open>res.json(j)\<close> alone answers 200.\<close>

definition res_json :: "nat \<Rightarrow> json \<Rightarrow> response" where
  "res_json n j = \<lparr>status = n, body = Some j\<rparr>"

definition error_json :: "string \<Rightarrow> json" where
  "error_json m = JObj [(''error'', JBool True), (''message'', JStr m)]"

definition user_json :: "user_doc \<Rightarrow> json" where
  "user_json u =
     JObj [(''_id'', JStr (u_id u)),
           (''fullName'', JStr (fullName u)),
           (''email'', JStr (email u)),
           (''password'', JStr (password u)),
           (''createdOn'', JNum (u_createdOn u))]"

definition note_json :: "note_doc \<Rightarrow> json" where
  "note_json n =
     JObj [(''_id'', JStr (n_id n)),
           (''title'', JStr (title n)),
           (''content'', JStr (content n)),
           (''tags'', JArr (map JStr (tags n))),
           (''isPinned'', JBool (isPinned n)),
           (''userId'', JStr (userId n)),
           (''createdOn'', JNum (n_createdOn n))]"

fun json_at :: "string list \<Rightarrow> json \<Rightarrow> json option" where
  "json_at [] j = Some j"
| "json_at (k # ks) (JObj kvs) =
     (case map_of kvs k of None \<Rightarrow> None | Some v \<Rightarrow> json_at ks v)"
| "json_at (k # ks) _ = None"

text \<open>
  The strings of a payload, outside the token: what a reader of the response sees
  without decoding the token.
\<close>

fun json_strings :: "json \<Rightarrow> string list" where
  "json_strings (JStr s) = [s]"
| "json_strings (JArr js) = concat (map json_strings js)"
| "json_strings (JObj kvs) = concat (map (\<lambda>kv. json_strings (snd kv)) kvs)"
| "json_strings _ = []"

section \<open>bcrypt and jsonwebtoken\<close>

text \<open>
  \<^verbatim>\<open>bcrypt.hash(password, 10)\<close> answers the modular-crypt string: the tag of
  version and cost, the 22 characters of the salt, the digest. \<^verbatim>\<open>bcrypt.compare\<close>
  reads the salt back from the hash and recomputes it.
\<close>

definition bcrypt_hash :: "platform \<Rightarrow> string \<Rightarrow> string \<Rightarrow> string" where
  "bcrypt_hash P salt pw = ''$2b$10$'' @ salt @ kdf P salt pw"

definition bcrypt_compare :: "platform \<Rightarrow> string \<Rightarrow> string \<Rightarrow> bool" where
  "bcrypt_compare P pw h = (h = bcrypt_hash P (take 22 (drop 7 h)) pw)"

text \<open>
  \<^verbatim>\<open>jwt.sign({ user }, process.env.ACCESS_TOKEN_SECRET, { expiresIn: "1h" })\<close>.
  \<open>jwt_sign\<close> is the token the call answers: \<^verbatim>\<open>iat\<close> is the clock in whole
  seconds, \<^verbatim>\<open>exp\<close> is \<^verbatim>\<open>iat\<close> plus 3600. The call itself is \<open>jwt_sign_call\<close>:
  it throws when the secret is empty or unset (an unset \<^verbatim>\<open>ACCESS_TOKEN_SECRET\<close> is
  the empty secret here), and otherwise answers that token.
\<close>

definition jwt_sign :: "platform \<Rightarrow> env \<Rightarrow> user_doc \<Rightarrow> token" where
  "jwt_sign P e u =
     (let c = \<lparr>c_user = u, c_iat = clock e div 1000, c_exp = clock e div 1000 + 3600\<rparr>
      in \<lparr>t_claims = c, t_sig = HS256 (secret P) c\<rparr>)"

definition jwt_sign_call :: "platform \<Rightarrow> env \<Rightarrow> user_doc \<Rightarrow> js_error + token" where
  "jwt_sign_call P e u = (if secret P = [] then Inl JwtError else Inr (jwt_sign P e u))"

section \<open>The store\<close>

text \<open>
  A collection is the list of its documents in insertion order. A store call throws
  what \<open>store_throws\<close> says; a filter on \<^verbatim>\<open>_id\<close> casts the value to an object
  id: it throws \<open>CastError\<close> when the value is not 24 hexadecimal digits, and
  otherwise compares with the id those digits denote, \<open>ObjectId\<close>, which is its
  lower-case form, the form a stored \<^verbatim>\<open>_id\<close> has; an insert throws
  \<open>DuplicateKey\<close> on an \<^verbatim>\<open>_id\<close> that is taken, or on a taken value of a path the
  schema declares unique. A handler is one request run from its first line to its
  response, with no other request in between.
\<close>

definition is_hex :: "char \<Rightarrow> bool" where
  "is_hex c =
     (let n = (of_char c :: nat)
      in (48 \<le> n \<and> n \<le> 57) \<or> (65 \<le> n \<and> n \<le> 70) \<or> (97 \<le> n \<and> n \<le> 102))"

definition isValidObjectId :: "string \<Rightarrow> bool" where
  "isValidObjectId s = (length s = 24 \<and> list_all is_hex s)"

definition hex_lower :: "char \<Rightarrow> char" where
  "hex_lower c =
     (if c = CHR ''A'' then CHR ''a''
      else if c = CHR ''B'' then CHR ''b''
      else if c = CHR ''C'' then CHR ''c''
      else if c = CHR ''D'' then CHR ''d''
      else if c = CHR ''E'' then CHR ''e''
      else if c = CHR ''F'' then CHR ''f''
      else c)"

definition ObjectId :: "string \<Rightarrow> string" where
  "ObjectId s = map hex_lower s"

definition User_findOne_email :: "env \<Rightarrow> db \<Rightarrow> string \<Rightarrow> js_error + user_doc option" where
  "User_findOne_email e d em =
     (case store_throws e FindOne of
        Some err \<Rightarrow> Inl err
      | None \<Rightarrow> Inr (find (\<lambda>u. email u = em) (db_users d)))"

definition User_findOne_id :: "env \<Rightarrow> db \<Rightarrow> string \<Rightarrow> js_error + user_doc option" where
  "User_findOne_id e d i =
     (if \<not> isValidObjectId i then Inl CastError
      else case store_throws e FindOne of
        Some err \<Rightarrow> Inl err
      | None \<Rightarrow> Inr (find (\<lambda>u. u_id u = ObjectId i) (db_users d)))"

definition user_duplicate_key :: "user_doc list \<Rightarrow> user_doc \<Rightarrow> bool" where
  "user_duplicate_key us u =
     list_ex (\<lambda>v. u_id v = u_id u \<or>
                  list_ex (\<lambda>p. user_path p v = user_path p u) (unique_paths userSchema)) us"

definition User_save :: "env \<Rightarrow> db \<Rightarrow> user_doc \<Rightarrow> js_error + db" where
  "User_save e d u =
     (case store_throws e Save of
        Some err \<Rightarrow> Inl err
      | None \<Rightarrow>
          if user_duplicate_key (db_users d) u then Inl DuplicateKey
          else Inr (d\<lparr>db_users := db_users d @ [u]\<rparr>))"

section \<open>Registration and login\<close>

text \<open>
  Request bodies carry strings; a field the request leaves out is the empty string
  (both fail \<^verbatim>\<open>notEmpty\<close> and both are falsy). Strings are ASCII.
\<close>

record create_account_body =
  b_fullName :: string
  b_email :: string
  b_password :: string

record login_body =
  l_email :: string
  l_password :: string

definition is_alpha :: "char \<Rightarrow> bool" where
  "is_alpha c =
     (let n = (of_char c :: nat)
      in (65 \<le> n \<and> n \<le> 90) \<or> (97 \<le> n \<and> n \<le> 122))"

definition is_space :: "char \<Rightarrow> bool" where
  "is_space c = ((of_char c :: nat) \<in> set [9, 10, 11, 12, 13, 32])"

text \<open>The regular expression \<^verbatim>\<open>/^[A-Za-z\s']+$/\<close>.\<close>

definition matches_name :: "string \<Rightarrow> bool" where
  "matches_name s = (s \<noteq> [] \<and> list_all (\<lambda>c. is_alpha c \<or> is_space c \<or> c = CHR 0x27) s)"

text \<open>
  One entry of \<^verbatim>\<open>errors.array()\<close> for each validator of a chain that fails, with
  its message and the field's name.
\<close>

definition verr :: "string \<Rightarrow> string \<Rightarrow> bool \<Rightarrow> json list" where
  "verr field msg ok =
     (if ok then [] else [JObj [(''msg'', JStr msg), (''path'', JStr field)]])"

definition validate_create_account :: "platform \<Rightarrow> create_account_body \<Rightarrow> json list" where
  "validate_create_account P b =
     verr ''fullName'' ''Full name is required'' (b_fullName b \<noteq> []) @
     verr ''fullName'' ''Full name must not contain numbers'' (matches_name (b_fullName b)) @
     verr ''email'' ''Email is required'' (b_email b \<noteq> []) @
     verr ''email'' ''Invalid email format'' (isEmail P (b_email b)) @
     verr ''password'' ''Password is required'' (b_password b \<noteq> []) @
     verr ''password'' ''Password must be between 5 and 25 characters''
       (5 \<le> length (b_password b) \<and> length (b_password b) \<le> 25)"

definition validation_error :: "json list \<Rightarrow> response" where
  "validation_error errors =
     res_json 400 (JObj [(''error'', JBool True),
                         (''message'', JStr ''Validation error''),
                         (''details'', JArr errors)])"

text \<open>
  \<^verbatim>\<open>new User({ fullName, email, password: hashedPassword })\<close>: mongoose gives the
  document its \<^verbatim>\<open>_id\<close> and the default of \<^verbatim>\<open>createdOn\<close>.
\<close>

definition new_User :: "env \<Rightarrow> string \<Rightarrow> string \<Rightarrow> string \<Rightarrow> user_doc" where
  "new_User e name em hashed =
     \<lparr>u_id = gen_id e, fullName = name, email = em, password = hashed, u_createdOn = clock e\<rparr>"

definition create_account ::
  "platform \<Rightarrow> env \<Rightarrow> db \<Rightarrow> create_account_body \<Rightarrow> response \<times> db" where
  "create_account P e d b =
     (let errors = validate_create_account P b in
      if errors \<noteq> [] then (validation_error errors, d)
      else
        case User_findOne_email e d (b_email b) of
          Inl err \<Rightarrow> (res_json 500 (error_json ''Internal Server Error''), d)
        | Inr (Some isUser) \<Rightarrow> (res_json 400 (error_json ''User already exists''), d)
        | Inr None \<Rightarrow>
            let hashedPassword = bcrypt_hash P (gen_salt e) (b_password b);
                user = new_User e (b_fullName b) (b_email b) hashedPassword
            in (case User_save e d user of
                  Inl err \<Rightarrow> (res_json 500 (error_json ''Internal Server Error''), d)
                | Inr d' \<Rightarrow>
                    (case jwt_sign_call P e user of
                       Inl err \<Rightarrow> (res_json 500 (error_json ''Internal Server Error''), d')
                     | Inr accessToken \<Rightarrow>
                         (res_json 200
                            (JObj [(''error'', JBool False),
                                   (''user'', user_json user),
                                   (''accessToken'', JTok accessToken),
                                   (''message'', JStr ''Registration Successful'')]),
                          d'))))"

text \<open>
  The handler awaits its two store calls one after the other, and another request may
  run between them. Its two phases: up to the lookup, which decides a response or the
  document to save, and the insert with the signing and the response that follow it.
  The save is not undone when the signing throws: the account stays in the store.
\<close>

definition create_account_lookup ::
  "platform \<Rightarrow> env \<Rightarrow> db \<Rightarrow> create_account_body \<Rightarrow> response + user_doc" where
  "create_account_lookup P e d b =
     (let errors = validate_create_account P b in
      if errors \<noteq> [] then Inl (validation_error errors)
      else
        case User_findOne_email e d (b_email b) of
          Inl err \<Rightarrow> Inl (res_json 500 (error_json ''Internal Server Error''))
        | Inr (Some isUser) \<Rightarrow> Inl (res_json 400 (error_json ''User already exists''))
        | Inr None \<Rightarrow>
            Inr (new_User e (b_fullName b) (b_email b)
                   (bcrypt_hash P (gen_salt e) (b_password b))))"

definition create_account_insert ::
  "platform \<Rightarrow> env \<Rightarrow> db \<Rightarrow> user_doc \<Rightarrow> response \<times> db" where
  "create_account_insert P e d user =
     (case User_save e d user of
        Inl err \<Rightarrow> (res_json 500 (error_json ''Internal Server Error''), d)
      | Inr d' \<Rightarrow>
          (case jwt_sign_call P e user of
             Inl err \<Rightarrow> (res_json 500 (error_json ''Internal Server Error''), d')
           | Inr accessToken \<Rightarrow>
               (res_json 200
                  (JObj [(''error'', JBool False),
                         (''user'', user_json user),
                         (''accessToken'', JTok accessToken),
                         (''message'', JStr ''Registration Successful'')]),
                d')))"

definition validate_login :: "platform \<Rightarrow> login_body \<Rightarrow> json list" where
  "validate_login P b =
     verr ''email'' ''Email is required'' (l_email b \<noteq> []) @
     verr ''email'' ''Invalid email format'' (isEmail P (l_email b)) @
     verr ''password'' ''Password is required'' (l_password b \<noteq> [])"

definition login :: "platform \<Rightarrow> env \<Rightarrow> db \<Rightarrow> login_body \<Rightarrow> response \<times> db" where
  "login P e d b =
     (let errors = validate_login P b in
      if errors \<noteq> [] then (validation_error errors, d)
      else if l_email b = [] then (res_json 400 (error_json ''Email is required''), d)
      else if l_password b = [] then (res_json 400 (error_json ''Password is required''), d)
      else
        case User_findOne_email e d (l_email b) of
          Inl err \<Rightarrow> (res_json 500 (error_json ''Internal Server Error''), d)
        | Inr None \<Rightarrow> (res_json 400 (error_json ''User not found, check your email''), d)
        | Inr (Some userInfo) \<Rightarrow>
            let passwordMatch = bcrypt_compare P (l_password b) (password userInfo) in
            if email userInfo = l_email b \<and> passwordMatch then
              (case jwt_sign_call P e userInfo of
                 Inl err \<Rightarrow> (res_json 500 (error_json ''Internal Server Error''), d)
               | Inr accessToken \<Rightarrow>
                   (res_json 200
                      (JObj [(''error'', JBool False),
                             (''message'', JStr ''Login Successfull''),
                             (''email'', JStr (l_email b)),
                             (''accessToken'', JTok accessToken)]),
                    d))
            else (res_json 400 (error_json ''Invalid Credential''), d))"

section \<open>The protected routes\<close>

text \<open>
  Each handler below runs behind \<^verbatim>\<open>authenticateToken\<close>; its argument \<open>c\<close> is
  \<^verbatim>\<open>req.user\<close>, the decoded payload of the token, and \<^verbatim>\<open>const { user } = req.user\<close>
  is \<open>c_user c\<close>.
\<close>

definition get_user :: "env \<Rightarrow> db \<Rightarrow> claims \<Rightarrow> response \<times> db" where
  "get_user e d c =
     (case User_findOne_id e d (u_id (c_user c)) of
        Inl err \<Rightarrow>
          (res_json 500 (error_json ''An error occurred while retrieving user data.''), d)
      | Inr None \<Rightarrow> (\<lparr>status = 401, body = None\<rparr>, d)
      | Inr (Some isUser) \<Rightarrow>
          (res_json 200
             (JObj [(''error'', JBool False),
                    (''user'', JObj [(''FullName'', JStr (fullName isUser)),
                                     (''email'', JStr (email isUser)),
                                     (''_id'', JStr (u_id isUser)),
                                     (''createdOn'', JNum (u_createdOn isUser))]),
                    (''message'', JStr ''User retrieved successfully'')]),
           d))"

subsection \<open>The note store\<close>

definition Note_findOne :: "env \<Rightarrow> db \<Rightarrow> string \<Rightarrow> string \<Rightarrow> js_error + note_doc option" where
  "Note_findOne e d noteId uid =
     (if \<not> isValidObjectId noteId then Inl CastError
      else case store_throws e FindOne of
        Some err \<Rightarrow> Inl err
      | None \<Rightarrow>
          Inr (find (\<lambda>n. n_id n = ObjectId noteId \<and> userId n = uid) (db_notes d)))"

definition Note_find :: "env \<Rightarrow> db \<Rightarrow> (note_doc \<Rightarrow> bool) \<Rightarrow> js_error + note_doc list" where
  "Note_find e d flt =
     (case store_throws e Find of
        Some err \<Rightarrow> Inl err
      | None \<Rightarrow> Inr (filter flt (db_notes d)))"

text \<open>\<^verbatim>\<open>note.save()\<close> of a new document: an insert.\<close>

definition Note_insert :: "env \<Rightarrow> db \<Rightarrow> note_doc \<Rightarrow> js_error + db" where
  "Note_insert e d n =
     (case store_throws e Save of
        Some err \<Rightarrow> Inl err
      | None \<Rightarrow>
          if list_ex (\<lambda>m. n_id m = n_id n) (db_notes d) then Inl DuplicateKey
          else Inr (d\<lparr>db_notes := db_notes d @ [n]\<rparr>))"

text \<open>
  \<^verbatim>\<open>note.save()\<close> of a document that was read from the store: an update of the
  first document with its \<^verbatim>\<open>_id\<close>.
\<close>

fun replace_by_id :: "note_doc \<Rightarrow> note_doc list \<Rightarrow> note_doc list" where
  "replace_by_id m [] = []"
| "replace_by_id m (x # xs) = (if n_id x = n_id m then m # xs else x # replace_by_id m xs)"

definition Note_save :: "env \<Rightarrow> db \<Rightarrow> note_doc \<Rightarrow> js_error + db" where
  "Note_save e d n =
     (case store_throws e Save of
        Some err \<Rightarrow> Inl err
      | None \<Rightarrow> Inr (d\<lparr>db_notes := replace_by_id n (db_notes d)\<rparr>))"

fun delete_first :: "('a \<Rightarrow> bool) \<Rightarrow> 'a list \<Rightarrow> 'a list" where
  "delete_first flt [] = []"
| "delete_first flt (x # xs) = (if flt x then xs else x # delete_first flt xs)"

definition Note_deleteOne :: "env \<Rightarrow> db \<Rightarrow> string \<Rightarrow> string \<Rightarrow> js_error + db" where
  "Note_deleteOne e d noteId uid =
     (if \<not> isValidObjectId noteId then Inl CastError
      else case store_throws e DeleteOne of
        Some err \<Rightarrow> Inl err
      | None \<Rightarrow>
          Inr (d\<lparr>db_notes :=
                   delete_first (\<lambda>n. n_id n = ObjectId noteId \<and> userId n = uid)
                     (db_notes d)\<rparr>))"

subsection \<open>The note handlers\<close>

text \<open>
  The body of \<^verbatim>\<open>/add-notes\<close> and \<^verbatim>\<open>/edit-notes\<close>. \<open>b_tags\<close> is \<open>None\<close> when the
  request has no array there, \<open>b_isPinned\<close> is \<open>None\<close> when the field is undefined.
\<close>

record note_body =
  b_title :: string
  b_content :: string
  b_tags :: "string list option"
  b_isPinned :: "bool option"

definition tag_ok :: "string \<Rightarrow> bool" where
  "tag_ok t = (length t < 25 \<and> \<not> list_ex is_space t)"

definition validate_note :: "note_body \<Rightarrow> json list" where
  "validate_note b =
     verr ''title'' ''Title must be less than 225 characters'' (length (b_title b) \<le> 225) @
     verr ''tags'' ''Tags must be an array'' (b_tags b \<noteq> None) @
     verr ''tags''
       ''Invalid tags format, tags should be without spacing and less than 25 characters''
       (case b_tags b of None \<Rightarrow> False | Some ts \<Rightarrow> list_all tag_ok ts) @
     verr ''content'' ''Content is required'' (b_content b \<noteq> [])"

definition add_notes :: "env \<Rightarrow> db \<Rightarrow> claims \<Rightarrow> note_body \<Rightarrow> response \<times> db" where
  "add_notes e d c b =
     (let errors = validate_note b in
      if errors \<noteq> [] then (validation_error errors, d)
      else if b_title b = [] then (res_json 400 (error_json ''Title is required''), d)
      else if b_content b = [] then (res_json 400 (error_json ''Content is required''), d)
      else
        let note = \<lparr>n_id = gen_id e, title = b_title b, content = b_content b,
                    tags = (case b_tags b of None \<Rightarrow> [] | Some ts \<Rightarrow> ts),
                    isPinned = False, userId = u_id (c_user c), n_createdOn = clock e\<rparr>
        in case Note_insert e d note of
             Inl err \<Rightarrow> (res_json 500 (error_json ''Internal Server Error''), d)
           | Inr d' \<Rightarrow>
               (res_json 201
                  (JObj [(''error'', JBool False),
                         (''note'', note_json note),
                         (''message'', JStr ''New note has been created'')]),
                d'))"

text \<open>
  The four assignments of \<^verbatim>\<open>/edit-notes\<close>, each under its truthiness test:
  \<^verbatim>\<open>if (title) note.title = title\<close>, and so on for the content, the tags (an array
  is truthy, also when empty) and \<^verbatim>\<open>isPinned\<close>.
\<close>

definition assign_changes :: "note_body \<Rightarrow> note_doc \<Rightarrow> note_doc" where
  "assign_changes b note =
     (let note1 = (if b_title b \<noteq> [] then note\<lparr>title := b_title b\<rparr> else note);
          note2 = (if b_content b \<noteq> [] then note1\<lparr>content := b_content b\<rparr> else note1);
          note3 = (case b_tags b of None \<Rightarrow> note2 | Some ts \<Rightarrow> note2\<lparr>tags := ts\<rparr>)
      in if b_isPinned b = Some True then note3\<lparr>isPinned := True\<rparr> else note3)"

definition edit_notes :: "env \<Rightarrow> db \<Rightarrow> claims \<Rightarrow> string \<Rightarrow> note_body \<Rightarrow> response \<times> db" where
  "edit_notes e d c noteId b =
     (let errors = validate_note b in
      if errors \<noteq> [] then (validation_error errors, d)
      else if b_title b = [] \<and> b_content b = [] \<and> b_tags b = None then
        (res_json 400 (error_json ''No Changes Provided''), d)
      else
        case Note_findOne e d noteId (u_id (c_user c)) of
          Inl err \<Rightarrow> (res_json 500 (error_json ''Internal server error''), d)
        | Inr None \<Rightarrow> (res_json 400 (error_json ''Notes not found''), d)
        | Inr (Some note) \<Rightarrow>
            let note' = assign_changes b note
            in (case Note_save e d note' of
                  Inl err \<Rightarrow> (res_json 500 (error_json ''Internal server error''), d)
                | Inr d' \<Rightarrow>
                    (res_json 200
                       (JObj [(''error'', JBool False),
                              (''note'', note_json note'),
                              (''message'', JStr ''Note has been updated'')]),
                     d')))"

text \<open>
  \<^verbatim>\<open>Note.find({ userId: user._id }).sort({ isPinned: -1 })\<close>: descending on the
  boolean, so the key of the ascending sort is its negation.
\<close>

definition get_all_notes :: "env \<Rightarrow> db \<Rightarrow> claims \<Rightarrow> response \<times> db" where
  "get_all_notes e d c =
     (case Note_find e d (\<lambda>n. userId n = u_id (c_user c)) of
        Inl err \<Rightarrow> (res_json 500 (error_json ''Internal server error''), d)
      | Inr ns \<Rightarrow>
          (res_json 200
             (JObj [(''error'', JBool False),
                    (''notes'', JArr (map note_json (sort_key (\<lambda>n. \<not> isPinned n) ns))),
                    (''message'', JStr ''All notes retrieved successfully'')]),
           d))"

definition delete_note :: "env \<Rightarrow> db \<Rightarrow> claims \<Rightarrow> string \<Rightarrow> response \<times> db" where
  "delete_note e d c noteId =
     (case Note_findOne e d noteId (u_id (c_user c)) of
        Inl err \<Rightarrow> (res_json 400 (error_json ''Note not found''), d)
      | Inr None \<Rightarrow> (res_json 400 (error_json ''Note not found''), d)
      | Inr (Some note) \<Rightarrow>
          (case Note_deleteOne e d noteId (u_id (c_user c)) of
             Inl err \<Rightarrow> (res_json 400 (error_json ''Note not found''), d)
           | Inr d' \<Rightarrow>
               (res_json 200
                  (JObj [(''error'', JBool False),
                         (''message'', JStr ''Note deleted successfully'')]),
                d')))"

definition update_note_ispinned ::
  "env \<Rightarrow> db \<Rightarrow> claims \<Rightarrow> string \<Rightarrow> bool option \<Rightarrow> response \<times> db" where
  "update_note_ispinned e d c noteId pinned =
     (case pinned of
        None \<Rightarrow> (res_json 400 (error_json ''No changes provided''), d)
      | Some v \<Rightarrow>
          (case Note_findOne e d noteId (u_id (c_user c)) of
             Inl err \<Rightarrow> (res_json 500 (error_json ''Internal server error''), d)
           | Inr None \<Rightarrow> (res_json 404 (error_json ''Note not found''), d)
           | Inr (Some note) \<Rightarrow>
               (case Note_save e d (note\<lparr>isPinned := (v \<or> False)\<rparr>) of
                  Inl err \<Rightarrow> (res_json 500 (error_json ''Internal server error''), d)
                | Inr d' \<Rightarrow>
                    (res_json 200
                       (JObj [(''error'', JBool False),
                              (''note'', note_json (note\<lparr>isPinned := (v \<or> False)\<rparr>)),
                              (''message'', JStr ''Note pinned change successfully'')]),
                     d'))))"

definition search_notes :: "platform \<Rightarrow> env \<Rightarrow> db \<Rightarrow> claims \<Rightarrow> string \<Rightarrow> response \<times> db" where
  "search_notes P e d c query =
     (if query = [] then (res_json 400 (error_json ''Search query is needed!''), d)
      else
        case regexp P query of
          None \<Rightarrow> (res_json 500 (error_json ''Internal Server Error''), d)
        | Some re \<Rightarrow>
            (case Note_find e d
                    (\<lambda>n. userId n = u_id (c_user c) \<and> (re (title n) \<or> re (content n))) of
               Inl err \<Rightarrow> (res_json 500 (error_json ''Internal Server Error''), d)
             | Inr matchingNote \<Rightarrow>
                 (res_json 200
                    (JObj [(''error'', JBool False),
                           (''notes'', JArr (map note_json matchingNote)),
                           (''message'', JStr ''Search notes successfully retrieved'')]),
                  d)))"

text \<open>The note routes of the application, as one function of the request.\<close>

datatype note_request =
    AddNotes note_body
  | EditNotes string note_body
  | GetAllNotes
  | DeleteNote string
  | UpdateNoteIsPinned string "bool option"
  | SearchNotes string

fun note_route :: "platform \<Rightarrow> env \<Rightarrow> db \<Rightarrow> claims \<Rightarrow> note_request \<Rightarrow> response \<times> db" where
  "note_route P e d c (AddNotes b) = add_notes e d c b"
| "note_route P e d c (EditNotes noteId b) = edit_notes e d c noteId b"
| "note_route P e d c GetAllNotes = get_all_notes e d c"
| "note_route P e d c (DeleteNote noteId) = delete_note e d c noteId"
| "note_route P e d c (UpdateNoteIsPinned noteId pinned) = update_note_ispinned e d c noteId pinned"
| "note_route P e d c (SearchNotes query) = search_notes P e d c query"

section \<open>Reading a response\<close>

text \<open>The notes a response carries: its \<^verbatim>\<open>note\<close> field and the items of \<^verbatim>\<open>notes\<close>.\<close>

definition returned_notes :: "response \<Rightarrow> json list" where
  "returned_notes r =
     (case body r of
        None \<Rightarrow> []
      | Some j \<Rightarrow>
          (case json_at [''note''] j of None \<Rightarrow> [] | Some n \<Rightarrow> [n]) @
          (case json_at [''notes''] j of Some (JArr ns) \<Rightarrow> ns | _ \<Rightarrow> []))"

definition accessToken_of :: "response \<Rightarrow> token option" where
  "accessToken_of r =
     (case body r of
        None \<Rightarrow> None
      | Some j \<Rightarrow> (case json_at [''accessToken''] j of Some (JTok t) \<Rightarrow> Some t | _ \<Rightarrow> None))"

text \<open>
  An explicit error object: a body with \<^verbatim>\<open>error: true\<close> and a message that is not
  empty. A success: a body with \<^verbatim>\<open>error: false\<close>.
\<close>

definition explicit_error :: "response \<Rightarrow> bool" where
  "explicit_error r =
     (case body r of
        None \<Rightarrow> False
      | Some j \<Rightarrow>
          json_at [''error''] j = Some (JBool True) \<and>
          (case json_at [''message''] j of Some (JStr m) \<Rightarrow> m \<noteq> [] | _ \<Rightarrow> False))"

definition is_success :: "response \<Rightarrow> bool" where
  "is_success r =
     (case body r of None \<Rightarrow> False | Some j \<Rightarrow> json_at [''error''] j = Some (JBool False))"

text \<open>
  The strings a reader of the response sees without decoding the token, and whether
  the string \<open>h\<close> is among them.
\<close>

definition exposes :: "response \<Rightarrow> string \<Rightarrow> bool" where
  "exposes r h = (case body r of None \<Rightarrow> False | Some j \<Rightarrow> h \<in> set (json_strings j))"

text \<open>
  The notes of the store that the user \<open>uid\<close> does not own, and whether every note a
  response carries is the JSON of a note that \<open>uid\<close> owns.
\<close>

definition others :: "string \<Rightarrow> db \<Rightarrow> note_doc list" where
  "others uid d = filter (\<lambda>x. userId x \<noteq> uid) (db_notes d)"

definition owned_json :: "string \<Rightarrow> response \<Rightarrow> bool" where
  "owned_json uid r = list_all (\<lambda>j. \<exists>m. j = note_json m \<and> userId m = uid) (returned_notes r)"

section \<open>Token validation\<close>

text \<open>
  The middleware \<^verbatim>\<open>authenticateToken\<close> is imported from \<^verbatim>\<open>./utilities\<close>, a file of
  the repository that is not among the sources at hand. The three ways it refuses a
  request are the spec's Unauthenticated, InvalidToken and ExpiredToken.
\<close>

datatype auth_error = Unauthenticated | InvalidToken | ExpiredToken

text \<open>
  Modelled from the spec: the token check inside \<^verbatim>\<open>authenticateToken\<close> of
  \<^verbatim>\<open>./utilities\<close>, which is missing. The spec's ValidateToken verifies the signature
  against the process-wide secret and fails with InvalidToken when the check fails;
  then checks the expiry against the current time and fails with ExpiredToken when it
  is past (a token is valid while now < expiry); on success it yields the embedded
  account.
\<close>

definition ValidateToken :: "platform \<Rightarrow> env \<Rightarrow> token \<Rightarrow> auth_error + claims" where
  "ValidateToken P e t =
     (if t_sig t \<noteq> HS256 (secret P) (t_claims t) then Inl InvalidToken
      else if c_exp (t_claims t) \<le> clock e div 1000 then Inl ExpiredToken
      else Inr (t_claims t))"

text \<open>
  Modelled from the spec: the middleware \<^verbatim>\<open>authenticateToken\<close> of \<^verbatim>\<open>./utilities\<close>,
  which is missing. A request with no usable authorization header (\<open>None\<close>) is
  Unauthenticated before the token is looked at; otherwise the token is validated and
  its payload becomes \<^verbatim>\<open>req.user\<close>.
\<close>

definition authenticateToken :: "platform \<Rightarrow> env \<Rightarrow> token option \<Rightarrow> auth_error + claims" where
  "authenticateToken P e hdr =
     (case hdr of None \<Rightarrow> Inl Unauthenticated | Some t \<Rightarrow> ValidateToken P e t)"

section \<open>A concrete instance\<close>

text \<open>
  One platform, two accounts and three notes, to state the theorems at concrete
  inputs. The platform's functions are stand-ins: an address is anything with an
  \<^verbatim>\<open>@\<close>, the digest is 31 characters cut from the password and the salt, a pattern
  matches the strings it is a prefix of and the pattern \<^verbatim>\<open>(\<close> does not compile.
\<close>

definition demo_platform :: platform where
  "demo_platform =
     \<lparr>secret = ''test-secret'',
      isEmail = (\<lambda>s. CHR ''@'' \<in> set s),
      kdf = (\<lambda>salt pw. take 31 (rev pw @ salt @ ''...............................'')),
      regexp = (\<lambda>q. if q = ''('' then None else Some (\<lambda>s. take (length q) s = q))\<rparr>"

definition demo_env :: "nat \<Rightarrow> string \<Rightarrow> env" where
  "demo_env t i =
     \<lparr>clock = t, gen_salt = ''N9qo8uLOickgx2ZMRZoMye'', gen_id = i,
      store_throws = (\<lambda>op. None)\<rparr>"

definition alice_body :: create_account_body where
  "alice_body = \<lparr>b_fullName = ''Alice A'', b_email = ''alice@x.com'', b_password = ''pass1''\<rparr>"

definition alice :: user_doc where
  "alice =
     \<lparr>u_id = ''65f000000000000000000001'', fullName = ''Alice A'', email = ''alice@x.com'',
      password = ''$2b$10$N9qo8uLOickgx2ZMRZoMye1ssapN9qo8uLOickgx2ZMRZoMye....'',
      u_createdOn = 1700000000100\<rparr>"

definition bob :: user_doc where
  "bob =
     \<lparr>u_id = ''65f000000000000000000002'', fullName = ''Bob B'', email = ''bob@x.com'',
      password = ''$2b$10$N9qo8uLOickgx2ZMRZoMye2ssapN9qo8uLOickgx2ZMRZoMye....'',
      u_createdOn = 1700000000200\<rparr>"


definition alice_note :: note_doc where
  "alice_note =
     \<lparr>n_id = ''65f0000000000000000000a1'', title = ''Plan'', content = ''Buy milk'',
      tags = [''home''], isPinned = False, userId = ''65f000000000000000000001'',
      n_createdOn = 1700000001000\<rparr>"

definition bob_note :: note_doc where
  "bob_note =
     \<lparr>n_id = ''65f0000000000000000000b1'', title = ''Work'', content = ''Ship it'',
      tags = [], isPinned = False, userId = ''65f000000000000000000002'',
      n_createdOn = 1700000002000\<rparr>"

definition bob_pinned :: note_doc where
  "bob_pinned =
     \<lparr>n_id = ''65f0000000000000000000b2'', title = ''Keys'', content = ''Under the mat'',
      tags = [''home''], isPinned = True, userId = ''65f000000000000000000002'',
      n_createdOn = 1700000003000\<rparr>"

definition demo_db :: db where
  "demo_db = \<lparr>db_users = [alice, bob], db_notes = [alice_note, bob_note, bob_pinned]\<rparr>"

text \<open>What \<^verbatim>\<open>req.user\<close> holds for a token issued to the account at time \<open>t\<close>.\<close>

definition claims_of :: "user_doc \<Rightarrow> nat \<Rightarrow> claims" where
  "claims_of u t = \<lparr>c_user = u, c_iat = t div 1000, c_exp = t div 1000 + 3600\<rparr>"

definition empty_db :: db where
  "empty_db = \<lparr>db_users = [], db_notes = []\<rparr>"

text \<open>A store whose insert throws \<open>err\<close> and whose other calls answer.\<close>

definition save_fails :: "js_error \<Rightarrow> store_op \<Rightarrow> js_error option" where
  "save_fails err op = (if op = Save then Some err else None)"

section \<open>Facts about the library models and the store\<close>

lemma validate_create_account_ok:
  "validate_create_account P b = [] \<longleftrightarrow>
     b_fullName b \<noteq> [] \<and> matches_name (b_fullName b) \<and>
     b_email b \<noteq> [] \<and> isEmail P (b_email b) \<and>
     b_password b \<noteq> [] \<and> 5 \<le> length (b_password b) \<and> length (b_password b) \<le> 25"
  by (simp add: validate_create_account_def verr_def)

lemma find_Some_iff_ex: "(\<exists>x. find Q xs = Some x) \<longleftrightarrow> (\<exists>x\<in>set xs. Q x)"
  by (induction xs) auto




lemma demo_body_valid: "validate_create_account demo_platform alice_body = []"
  by (simp add: validate_create_account_ok alice_body_def demo_platform_def matches_name_def
      is_alpha_def is_space_def)

lemma demo_sign: "jwt_sign_call demo_platform e u = Inr (jwt_sign demo_platform e u)"
  by (simp add: jwt_sign_call_def demo_platform_def)

lemma demo_register:
  "create_account demo_platform (demo_env 1700000000100 ''65f000000000000000000001'')
       empty_db alice_body =
     (res_json 200
        (JObj [(''error'', JBool False),
               (''user'', user_json alice),
               (''accessToken'',
                JTok (jwt_sign demo_platform
                        (demo_env 1700000000100 ''65f000000000000000000001'') alice)),
               (''message'', JStr ''Registration Successful'')]),
      \<lparr>db_users = [alice], db_notes = []\<rparr>)"
proof -
  have u: "new_User (demo_env 1700000000100 ''65f000000000000000000001'')
             (b_fullName alice_body) (b_email alice_body)
             (bcrypt_hash demo_platform
                (gen_salt (demo_env 1700000000100 ''65f000000000000000000001''))
                (b_password alice_body)) = alice"
    by (simp add: new_User_def demo_env_def alice_body_def bcrypt_hash_def demo_platform_def
        alice_def)
  show ?thesis
    unfolding create_account_def demo_body_valid Let_def u demo_sign
    by (simp add: User_findOne_email_def User_save_def user_duplicate_key_def
        empty_db_def demo_env_def)
qed

lemma demo_login:
  "login demo_platform (demo_env t i) \<lparr>db_users = [alice], db_notes = []\<rparr>
       \<lparr>l_email = ''alice@x.com'', l_password = ''pass1''\<rparr> =
     (res_json 200
        (JObj [(''error'', JBool False),
               (''message'', JStr ''Login Successfull''),
               (''email'', JStr ''alice@x.com''),
               (''accessToken'', JTok (jwt_sign demo_platform (demo_env t i) alice))]),
      \<lparr>db_users = [alice], db_notes = []\<rparr>)"
proof -
  have v: "validate_login demo_platform \<lparr>l_email = ''alice@x.com'', l_password = ''pass1''\<rparr> = []"
    by (simp add: validate_login_def verr_def demo_platform_def)
  have c: "bcrypt_compare demo_platform ''pass1'' (password alice)"
    by (simp add: bcrypt_compare_def bcrypt_hash_def demo_platform_def alice_def)
  have f: "User_findOne_email (demo_env t i) \<lparr>db_users = [alice], db_notes = []\<rparr> ''alice@x.com''
             = Inr (Some alice)"
    by (simp add: User_findOne_email_def demo_env_def alice_def)
  have em: "email alice = ''alice@x.com''" by (simp add: alice_def)
  show ?thesis
    by (simp add: login_def v f c em demo_sign)
qed

lemma create_account_token_iat:
  "accessToken_of (fst (create_account P e d b)) = Some t \<Longrightarrow>
   c_iat (t_claims t) = clock e div 1000"
  by (auto simp: create_account_def accessToken_of_def res_json_def error_json_def
      validation_error_def jwt_sign_call_def jwt_sign_def Let_def
      split: if_splits sum.splits option.splits)

lemma login_token_iat:
  "accessToken_of (fst (login P e d b)) = Some t \<Longrightarrow>
   c_iat (t_claims t) = clock e div 1000"
  by (auto simp: login_def accessToken_of_def res_json_def error_json_def
      validation_error_def jwt_sign_call_def jwt_sign_def Let_def
      split: if_splits sum.splits option.splits)

lemma create_account_users:
  "db_users (snd (create_account P e d b)) = db_users d \<or>
   (find (\<lambda>u. email u = b_email b) (db_users d) = None \<and>
    (\<exists>u. email u = b_email b \<and> db_users (snd (create_account P e d b)) = db_users d @ [u]))"
  by (auto simp: create_account_def User_findOne_email_def User_save_def new_User_def Let_def
      split: option.splits sum.splits if_splits)

lemma note_json_userId: "note_json n = note_json m \<Longrightarrow> userId n = userId m"
  by (simp add: note_json_def)

lemma returned_notes_error [simp]: "returned_notes (res_json k (error_json m)) = []"
  by (simp add: returned_notes_def res_json_def error_json_def)

lemma returned_notes_validation [simp]: "returned_notes (validation_error errs) = []"
  by (simp add: returned_notes_def validation_error_def res_json_def)

lemma returned_notes_note [simp]:
  "returned_notes (res_json k (JObj [(''error'', x), (''note'', j), (''message'', y)])) = [j]"
  by (simp add: returned_notes_def res_json_def)

lemma returned_notes_notes [simp]:
  "returned_notes (res_json k (JObj [(''error'', x), (''notes'', JArr js), (''message'', y)])) = js"
  by (simp add: returned_notes_def res_json_def)

lemma returned_notes_plain [simp]:
  "returned_notes (res_json k (JObj [(''error'', x), (''message'', y)])) = []"
  by (simp add: returned_notes_def res_json_def)

lemma find_SomeD: "find Q xs = Some x \<Longrightarrow> x \<in> set xs \<and> Q x"
  by (induction xs) (auto split: if_splits)

lemma replace_by_id_others:
  assumes "distinct (map n_id xs)" and "m \<in> set xs" and "n_id m' = n_id m"
    and "userId m = uid" and "userId m' = uid"
  shows "filter (\<lambda>x. userId x \<noteq> uid) (replace_by_id m' xs) = filter (\<lambda>x. userId x \<noteq> uid) xs"
  using assms
proof (induction xs)
  case Nil
  then show ?case by simp
next
  case (Cons x xs)
  show ?case
  proof (cases "n_id x = n_id m'")
    case True
    have "m = x"
    proof (rule ccontr)
      assume "m \<noteq> x"
      with Cons.prems(2) have "m \<in> set xs" by simp
      then have "n_id m \<in> set (map n_id xs)" by simp
      with Cons.prems(1,3) True show False by simp
    qed
    with True Cons.prems show ?thesis by simp
  next
    case False
    with Cons.prems have "m \<in> set xs" by auto
    with False Cons show ?thesis by simp
  qed
qed

lemma delete_first_others:
  "filter (\<lambda>x. userId x \<noteq> uid) (delete_first (\<lambda>n. n_id n = i \<and> userId n = uid) xs) =
   filter (\<lambda>x. userId x \<noteq> uid) xs"
  by (induction xs) auto

lemma replace_by_id_ids: "n_id m' = n_id m \<Longrightarrow> m \<in> set xs \<Longrightarrow>
   map n_id (replace_by_id m' xs) = map n_id xs"
  by (induction xs) auto

lemma replace_by_id_distinct:
  "distinct (map n_id xs) \<Longrightarrow> m \<in> set xs \<Longrightarrow> n_id m' = n_id m \<Longrightarrow>
   distinct (map n_id (replace_by_id m' xs))"
  by (simp add: replace_by_id_ids)

lemma assign_changes_keeps [simp]:
  "n_id (assign_changes b nt) = n_id nt" "userId (assign_changes b nt) = userId nt"
  by (simp_all add: assign_changes_def Let_def split: option.splits)

lemma Note_findOne_SomeD:
  "Note_findOne e d noteId uid = Inr (Some nt) \<Longrightarrow>
   nt \<in> set (db_notes d) \<and> n_id nt = ObjectId noteId \<and> userId nt = uid"
  by (auto simp: Note_findOne_def split: if_splits option.splits dest: find_SomeD)

lemma Note_save_others:
  assumes "distinct (map n_id (db_notes d))" and "nt \<in> set (db_notes d)"
    and "n_id nt' = n_id nt" and "userId nt = uid" and "userId nt' = uid"
    and "Note_save e d nt' = Inr d'"
  shows "others uid d' = others uid d"
  using assms replace_by_id_others [of "db_notes d" nt nt' uid]
  by (auto simp: Note_save_def others_def split: option.splits)

lemma explicit_error_res [simp]: "explicit_error (res_json k (error_json m)) \<longleftrightarrow> m \<noteq> []"
  by (simp add: explicit_error_def res_json_def error_json_def)

lemma explicit_error_validation [simp]: "explicit_error (validation_error errs)"
  by (simp add: explicit_error_def validation_error_def res_json_def)

lemma is_success_res [simp]: "is_success (res_json k (JObj ((''error'', JBool False) # kvs)))"
  by (simp add: is_success_def res_json_def)

lemma delete_first_subset: "set (delete_first Q xs) \<subseteq> set xs"
  by (induction xs) auto

lemma delete_first_distinct:
  "distinct (map f xs) \<Longrightarrow> distinct (map f (delete_first Q xs))"
proof (induction xs)
  case Nil
  then show ?case by simp
next
  case (Cons x xs)
  with delete_first_subset [of Q xs] show ?case by auto
qed

lemma create_account_phases:
  "create_account P e d b =
     (case create_account_lookup P e d b of
        Inl r \<Rightarrow> (r, d)
      | Inr user \<Rightarrow> create_account_insert P e d user)"
  by (simp add: create_account_def create_account_lookup_def create_account_insert_def Let_def
      split: sum.splits option.splits)

lemma demo_lookup:
  "create_account_lookup demo_platform (demo_env 1700000000100 i) empty_db alice_body =
     Inr (alice\<lparr>u_id := i\<rparr>)"
proof -
  have u: "new_User (demo_env 1700000000100 i)
             (b_fullName alice_body) (b_email alice_body)
             (bcrypt_hash demo_platform (gen_salt (demo_env 1700000000100 i))
                (b_password alice_body)) = alice\<lparr>u_id := i\<rparr>"
    by (simp add: new_User_def demo_env_def alice_body_def bcrypt_hash_def demo_platform_def
        alice_def)
  show ?thesis
    unfolding create_account_lookup_def demo_body_valid Let_def u
    by (simp add: User_findOne_email_def empty_db_def demo_env_def)
qed

section \<open>Registration\<close>

text \<open>
  C2. A registration whose email already has an account leaves the store as it was,
  and, when the input passes validation and the lookup answers, the response is the
  duplicate-account error: status 400 with the message \<^verbatim>\<open>User already exists\<close>.
\<close>

theorem register_duplicate_email:
  assumes taken: "\<exists>u\<in>set (db_users d). email u = b_email b"
  shows "snd (create_account P e d b) = d \<and>
         (validate_create_account P b = [] \<and> store_throws e FindOne = None \<longrightarrow>
            fst (create_account P e d b) = res_json 400 (error_json ''User already exists''))"
proof -
  from taken obtain u0 where u0: "find (\<lambda>u. email u = b_email b) (db_users d) = Some u0"
    using find_Some_iff_ex [of "\<lambda>u. email u = b_email b" "db_users d"] by blast
  show ?thesis
    by (simp add: create_account_def User_findOne_email_def u0 Let_def split: option.split)
qed

theorem register_duplicate_email_witness:
  "snd (create_account demo_platform (demo_env 1700000005000 ''65f000000000000000000003'')
          demo_db (alice_body\<lparr>b_password := ''pass2''\<rparr>)) = demo_db \<and>
   fst (create_account demo_platform (demo_env 1700000005000 ''65f000000000000000000003'')
          demo_db (alice_body\<lparr>b_password := ''pass2''\<rparr>)) =
     res_json 400 (error_json ''User already exists'')"
proof -
  have taken: "\<exists>u\<in>set (db_users demo_db). email u = b_email (alice_body\<lparr>b_password := ''pass2''\<rparr>)"
    by (simp add: demo_db_def alice_def alice_body_def)
  have valid: "validate_create_account demo_platform (alice_body\<lparr>b_password := ''pass2''\<rparr>) = []"
    using demo_body_valid by (simp add: validate_create_account_ok alice_body_def)
  have up: "store_throws (demo_env 1700000005000 ''65f000000000000000000003'') FindOne = None"
    by (simp add: demo_env_def)
  show ?thesis
    using register_duplicate_email [OF taken, of demo_platform "demo_env 1700000005000 ''65f000000000000000000003''"]
      valid up by simp
qed




text \<open>
  C3, as the claim states it, fails. The user schema declares no unique path; the
  store takes a second document with an email that is already there; and when the
  insert of a registration throws a duplicate-key failure the response is the generic
  500 \<^verbatim>\<open>Internal Server Error\<close>, not the duplicate-account error.
\<close>

theorem duplicate_key_is_internal_error:
  "unique_paths userSchema = [] \<and>
   User_save (demo_env 1700000005000 []) demo_db (alice\<lparr>u_id := ''65f000000000000000000003''\<rparr>) =
     Inr (demo_db\<lparr>db_users := [alice, bob, alice\<lparr>u_id := ''65f000000000000000000003''\<rparr>]\<rparr>) \<and>
   create_account demo_platform
       ((demo_env 1700000000100 ''65f000000000000000000001'')
          \<lparr>store_throws := save_fails DuplicateKey\<rparr>)
       empty_db alice_body =
     (res_json 500 (error_json ''Internal Server Error''), empty_db)"
proof -
  have a: "unique_paths userSchema = []"
    by (simp add: unique_paths_def userSchema_def)
  have b: "User_save (demo_env 1700000005000 []) demo_db (alice\<lparr>u_id := ''65f000000000000000000003''\<rparr>) =
     Inr (demo_db\<lparr>db_users := [alice, bob, alice\<lparr>u_id := ''65f000000000000000000003''\<rparr>]\<rparr>)"
    by (simp add: User_save_def user_duplicate_key_def a demo_env_def demo_db_def alice_def bob_def)
  have c: "create_account demo_platform
       ((demo_env 1700000000100 ''65f000000000000000000001'')
          \<lparr>store_throws := save_fails DuplicateKey\<rparr>)
       empty_db alice_body =
     (res_json 500 (error_json ''Internal Server Error''), empty_db)"
    unfolding create_account_def demo_body_valid Let_def
    by (simp add: User_findOne_email_def User_save_def save_fails_def empty_db_def demo_env_def)
  show ?thesis using a b c by simp
qed

text \<open>
  C3, amended. Email uniqueness at registration is enforced by the handler's own
  lookup before the insert, not by the store: the schema declares no unique path, and
  a registration handled on its own keeps the emails of the store distinct. Whatever
  the insert throws, a duplicate-key failure included, a registration with validated
  input and a fresh email answers the generic 500 \<^verbatim>\<open>Internal Server Error\<close> and
  leaves the store unchanged.
\<close>

theorem register_uniqueness_by_lookup:
  "unique_paths userSchema = [] \<and>
   (distinct (map email (db_users d)) \<longrightarrow>
      distinct (map email (db_users (snd (create_account P e d b))))) \<and>
   (validate_create_account P b = [] \<and> store_throws e FindOne = None \<and>
    (\<forall>u\<in>set (db_users d). email u \<noteq> b_email b) \<and> store_throws e Save = Some err \<longrightarrow>
      create_account P e d b = (res_json 500 (error_json ''Internal Server Error''), d))"
proof -
  have a: "unique_paths userSchema = []"
    by (simp add: unique_paths_def userSchema_def)
  have b: "distinct (map email (db_users (snd (create_account P e d b))))"
    if "distinct (map email (db_users d))"
    using create_account_users [of P e d b] that
    by (fastforce simp: find_None_iff)
  have c: "create_account P e d b = (res_json 500 (error_json ''Internal Server Error''), d)"
    if "validate_create_account P b = []" "store_throws e FindOne = None"
      "\<forall>u\<in>set (db_users d). email u \<noteq> b_email b" "store_throws e Save = Some err"
  proof -
    have "find (\<lambda>u. email u = b_email b) (db_users d) = None"
      using that(3) by (simp add: find_None_iff)
    then show ?thesis
      by (simp add: create_account_def that User_findOne_email_def User_save_def)
  qed
  show ?thesis using a b c by blast
qed

theorem register_uniqueness_by_lookup_witness:
  "distinct (map email (db_users (snd (create_account demo_platform
      (demo_env 1700000005000 ''65f000000000000000000003'') demo_db alice_body)))) \<and>
   create_account demo_platform
       ((demo_env 1700000000100 ''65f000000000000000000001'')
          \<lparr>store_throws := save_fails NetworkError\<rparr>)
       empty_db alice_body =
     (res_json 500 (error_json ''Internal Server Error''), empty_db)"
proof -
  have d: "distinct (map email (db_users demo_db))"
    by (simp add: demo_db_def alice_def bob_def)
  have h: "store_throws ((demo_env 1700000000100 ''65f000000000000000000001'')
          \<lparr>store_throws := save_fails NetworkError\<rparr>) FindOne = None"
    "\<forall>u\<in>set (db_users empty_db). email u \<noteq> b_email alice_body"
    "store_throws ((demo_env 1700000000100 ''65f000000000000000000001'')
          \<lparr>store_throws := save_fails NetworkError\<rparr>) Save = Some NetworkError"
    by (simp_all add: save_fails_def empty_db_def)
  show ?thesis
    using register_uniqueness_by_lookup [where d = demo_db and P = demo_platform
        and e = "demo_env 1700000005000 ''65f000000000000000000003''" and b = alice_body]
      register_uniqueness_by_lookup [where d = empty_db and P = demo_platform
        and e = "(demo_env 1700000000100 ''65f000000000000000000001'')
          \<lparr>store_throws := save_fails NetworkError\<rparr>" and b = alice_body
        and err = NetworkError]
      d h demo_body_valid
    by blast
qed

text \<open>
  The same answer follows an insert that fails because the object id of the new
  document is taken.
\<close>

lemma register_insert_failure_is_internal_error:
  assumes "validate_create_account P b = []"
    and "User_findOne_email e d (b_email b) = Inr None"
    and "User_save e d (new_User e (b_fullName b) (b_email b)
                          (bcrypt_hash P (gen_salt e) (b_password b))) = Inl err"
  shows "create_account P e d b = (res_json 500 (error_json ''Internal Server Error''), d)"
  using assms by (simp add: create_account_def)

text \<open>
  Two registrations of one email whose lookups both run before either insert: both
  lookups find no account, both inserts succeed, and the store ends with two accounts
  that share the email.
\<close>

lemma interleaved_registrations_share_email:
  "create_account_lookup demo_platform (demo_env 1700000000100 ''65f000000000000000000001'')
       empty_db alice_body = Inr alice \<and>
   create_account_lookup demo_platform (demo_env 1700000000100 ''65f000000000000000000003'')
       empty_db alice_body = Inr (alice\<lparr>u_id := ''65f000000000000000000003''\<rparr>) \<and>
   map email
     (db_users
        (snd (create_account_insert demo_platform
                (demo_env 1700000000100 ''65f000000000000000000003'')
                (snd (create_account_insert demo_platform
                        (demo_env 1700000000100 ''65f000000000000000000001'') empty_db alice))
                (alice\<lparr>u_id := ''65f000000000000000000003''\<rparr>)))) =
     [''alice@x.com'', ''alice@x.com'']"
proof -
  have a: "alice\<lparr>u_id := ''65f000000000000000000001''\<rparr> = alice"
    by (simp add: alice_def)
  have b: "snd (create_account_insert demo_platform
                        (demo_env 1700000000100 ''65f000000000000000000001'') empty_db alice) =
           \<lparr>db_users = [alice], db_notes = []\<rparr>"
    by (simp add: create_account_insert_def User_save_def user_duplicate_key_def demo_env_def
        empty_db_def demo_sign)
  have c: "db_users (snd (create_account_insert demo_platform
                (demo_env 1700000000100 ''65f000000000000000000003'')
                \<lparr>db_users = [alice], db_notes = []\<rparr>
                (alice\<lparr>u_id := ''65f000000000000000000003''\<rparr>))) =
           [alice, alice\<lparr>u_id := ''65f000000000000000000003''\<rparr>]"
    by (simp add: create_account_insert_def User_save_def user_duplicate_key_def demo_env_def
        unique_paths_def userSchema_def alice_def demo_sign)
  show ?thesis
    using demo_lookup [of "''65f000000000000000000001''"]
      demo_lookup [of "''65f000000000000000000003''"]
    unfolding b c a
    by (simp add: alice_def)
qed

text \<open>
  C1 fails at registration. The success response of \<^verbatim>\<open>/create-account\<close> carries
  the saved document whole: its \<^verbatim>\<open>user.password\<close> field is the stored hash, outside
  the token.
\<close>

theorem register_response_exposes_hash:
  "is_success (fst (create_account demo_platform
       (demo_env 1700000000100 ''65f000000000000000000001'') empty_db alice_body)) \<and>
   db_users (snd (create_account demo_platform
       (demo_env 1700000000100 ''65f000000000000000000001'') empty_db alice_body)) = [alice] \<and>
   json_at [''user'', ''password'']
       (the (body (fst (create_account demo_platform
          (demo_env 1700000000100 ''65f000000000000000000001'') empty_db alice_body)))) =
     Some (JStr (password alice)) \<and>
   exposes (fst (create_account demo_platform
       (demo_env 1700000000100 ''65f000000000000000000001'') empty_db alice_body))
     (password alice)"
  unfolding demo_register fst_conv snd_conv
  by (simp add: is_success_def exposes_def res_json_def user_json_def)

text \<open>
  The same holds for every successful registration: the hash that was stored is among
  the strings of the response. The two sibling responses keep it out: the body of
  \<^verbatim>\<open>/get-user\<close> has no \<^verbatim>\<open>user.password\<close> field and the body of \<^verbatim>\<open>/login\<close> has
  no \<^verbatim>\<open>user\<close> field at all.
\<close>

lemma create_account_success_exposes_hash:
  "is_success (fst (create_account P e d b)) \<Longrightarrow>
   exposes (fst (create_account P e d b)) (bcrypt_hash P (gen_salt e) (b_password b)) \<and>
   (\<exists>u \<in> set (db_users (snd (create_account P e d b))).
      password u = bcrypt_hash P (gen_salt e) (b_password b))"
  by (auto simp: create_account_def is_success_def exposes_def res_json_def error_json_def
      validation_error_def user_json_def new_User_def User_save_def Let_def
      split: sum.splits option.splits if_splits)

lemma get_user_no_password_field:
  "body (fst (get_user e d c)) = Some j \<Longrightarrow> json_at [''user'', ''password''] j = None"
  by (auto simp: get_user_def res_json_def error_json_def split: sum.splits option.splits)

lemma login_no_user_field:
  "body (fst (login P e d b)) = Some j \<Longrightarrow> json_at [''user''] j = None"
  by (auto simp: login_def res_json_def error_json_def validation_error_def Let_def
      split: sum.splits option.splits if_splits)

section \<open>Tokens\<close>

text \<open>
  C7. A token validated under the secret it was issued with, before its expiry second
  (in particular at the instant of issuance), is accepted, and the result is the
  account that was embedded at issuance, with the issuance and expiry times.
\<close>

theorem validate_issued_token:
  assumes "clock e' div 1000 < clock e div 1000 + 3600"
  shows "ValidateToken P e' (jwt_sign P e u) =
           Inr \<lparr>c_user = u, c_iat = clock e div 1000, c_exp = clock e div 1000 + 3600\<rparr>"
  using assms by (simp add: ValidateToken_def jwt_sign_def Let_def)

theorem validate_issued_token_witness:
  "ValidateToken demo_platform (demo_env 1700000000100 [])
     (jwt_sign demo_platform (demo_env 1700000000100 []) alice) =
   Inr \<lparr>c_user = alice, c_iat = 1700000000, c_exp = 1700003600\<rparr>"
proof -
  have "clock (demo_env 1700000000100 []) div 1000
          < clock (demo_env 1700000000100 []) div 1000 + 3600"
    by simp
  from validate_issued_token [OF this, of demo_platform alice]
  show ?thesis by (simp add: demo_env_def)
qed

text \<open>
  C8, as the claim states it, fails: a token that was signed with another secret and
  is validated 61 minutes after its issuance is refused as InvalidToken, not as
  ExpiredToken, since the signature is checked first.
\<close>

theorem expired_forged_token_is_invalid:
  "ValidateToken demo_platform (demo_env (1700000000100 + 61 * 60 * 1000) [])
     (jwt_sign (demo_platform\<lparr>secret := ''other-secret''\<rparr>) (demo_env 1700000000100 []) alice)
   = Inl InvalidToken"
  by (simp add: ValidateToken_def jwt_sign_def Let_def demo_platform_def demo_env_def)

text \<open>
  C8, amended. An issued token carries its issuance second and an expiry exactly 3600
  seconds later; validated under the issuing secret one hour or more after issuance
  (so at 61 minutes) it fails with ExpiredToken; a token whose signature does not
  verify fails with InvalidToken at any time.
\<close>

theorem token_expiry:
  "c_iat (t_claims (jwt_sign P e u)) = clock e div 1000 \<and>
   c_exp (t_claims (jwt_sign P e u)) = c_iat (t_claims (jwt_sign P e u)) + 3600 \<and>
   (clock e + 3600000 \<le> clock e' \<longrightarrow>
      ValidateToken P e' (jwt_sign P e u) = Inl ExpiredToken) \<and>
   (t_sig t \<noteq> HS256 (secret P) (t_claims t) \<longrightarrow> ValidateToken P e' t = Inl InvalidToken)"
proof -
  have "clock e + 3600000 \<le> clock e' \<Longrightarrow> clock e div 1000 + 3600 \<le> clock e' div 1000"
    by linarith
  then show ?thesis
    by (simp add: ValidateToken_def jwt_sign_def Let_def)
qed

theorem token_expiry_witness:
  "ValidateToken demo_platform (demo_env (1700000000100 + 61 * 60 * 1000) [])
     (jwt_sign demo_platform (demo_env 1700000000100 []) alice) = Inl ExpiredToken \<and>
   ValidateToken demo_platform (demo_env 1700000000100 [])
     (jwt_sign (demo_platform\<lparr>secret := ''other-secret''\<rparr>) (demo_env 1700000000100 []) alice)
   = Inl InvalidToken"
proof -
  have late: "clock (demo_env 1700000000100 []) + 3600000
                \<le> clock (demo_env (1700000000100 + 61 * 60 * 1000) [])"
    by (simp add: demo_env_def)
  have forged: "t_sig (jwt_sign (demo_platform\<lparr>secret := ''other-secret''\<rparr>)
                        (demo_env 1700000000100 []) alice) \<noteq>
                HS256 (secret demo_platform)
                  (t_claims (jwt_sign (demo_platform\<lparr>secret := ''other-secret''\<rparr>)
                        (demo_env 1700000000100 []) alice))"
    by (simp add: jwt_sign_def Let_def demo_platform_def)
  show ?thesis
    using token_expiry [of demo_platform "demo_env 1700000000100 []" alice
        "demo_env (1700000000100 + 61 * 60 * 1000) []"
        "jwt_sign (demo_platform\<lparr>secret := ''other-secret''\<rparr>) (demo_env 1700000000100 []) alice"]
      token_expiry [of demo_platform "demo_env 1700000000100 []" alice
        "demo_env 1700000000100 []"
        "jwt_sign (demo_platform\<lparr>secret := ''other-secret''\<rparr>) (demo_env 1700000000100 []) alice"]
      late forged
    by simp
qed

text \<open>
  A request that carries an issued token, before its expiry second, passes the
  middleware, and the handler behind it runs for the account of the token.
\<close>

lemma authenticateToken_issued:
  "clock e' div 1000 < clock e div 1000 + 3600 \<Longrightarrow>
   \<exists>c. authenticateToken P e' (Some (jwt_sign P e u)) = Inr c \<and> c_user c = u"
  by (simp add: authenticateToken_def ValidateToken_def jwt_sign_def Let_def)

text \<open>
  Tokens issued at registration and at login carry their issuance second, so a login
  in a later second than the registration answers a token with another payload. A
  login in the same second signs the same account under the same times: the two
  tokens then have the same payload and signature. (A token here is the structure the
  token string encodes; how jsonwebtoken and mongoose serialise the document inside
  the string is outside the model.)
\<close>

lemma login_later_second_fresh_token:
  assumes "accessToken_of (fst (create_account P e d b)) = Some t1"
    and "accessToken_of (fst (login P e' d' b')) = Some t2"
    and "clock e div 1000 < clock e' div 1000"
  shows "t1 \<noteq> t2"
  using create_account_token_iat [OF assms(1)] login_token_iat [OF assms(2)] assms(3)
  by auto

lemma login_same_second_same_payload:
  "accessToken_of (fst (create_account demo_platform
       (demo_env 1700000000100 ''65f000000000000000000001'') empty_db alice_body)) =
     Some (jwt_sign demo_platform (demo_env 1700000000100 []) alice) \<and>
   accessToken_of (fst (login demo_platform (demo_env 1700000000900 [])
       (snd (create_account demo_platform
          (demo_env 1700000000100 ''65f000000000000000000001'') empty_db alice_body))
       \<lparr>l_email = ''alice@x.com'', l_password = ''pass1''\<rparr>)) =
     Some (jwt_sign demo_platform (demo_env 1700000000100 []) alice)"
  unfolding demo_register fst_conv snd_conv demo_login
  by (simp add: accessToken_of_def res_json_def jwt_sign_def demo_env_def)

section \<open>The protected handlers\<close>

text \<open>
  C5 fails at \<^verbatim>\<open>/get-user\<close>. When the account of the token is not in the store,
  the handler sets the status 401 and sends no body: the response is not an explicit
  error object.
\<close>

theorem get_user_unknown_account_empty_response:
  "get_user (demo_env 1700000009000 []) empty_db (claims_of alice 1700000000100) =
     (\<lparr>status = 401, body = None\<rparr>, empty_db) \<and>
   \<not> explicit_error (fst (get_user (demo_env 1700000009000 []) empty_db
                            (claims_of alice 1700000000100)))"
proof -
  have "isValidObjectId (u_id alice)"
    by (simp add: isValidObjectId_def alice_def is_hex_def)
  then have "get_user (demo_env 1700000009000 []) empty_db (claims_of alice 1700000000100) =
     (\<lparr>status = 401, body = None\<rparr>, empty_db)"
    by (simp add: get_user_def User_findOne_id_def claims_of_def demo_env_def empty_db_def)
  then show ?thesis by (simp add: explicit_error_def)
qed

text \<open>
  Every other path answers with a body: each response of registration, of login and
  of the note routes is an explicit error object or a success, and the bodiless 401
  is the one other response of \<^verbatim>\<open>/get-user\<close>.
\<close>

lemma create_account_answers:
  "explicit_error (fst (create_account P e d b)) \<or> is_success (fst (create_account P e d b))"
  by (simp add: create_account_def Let_def split: sum.splits option.splits)

lemma login_answers:
  "explicit_error (fst (login P e d b)) \<or> is_success (fst (login P e d b))"
  by (simp add: login_def Let_def split: sum.splits option.splits)

lemma note_route_answers:
  "explicit_error (fst (note_route P e d c rq)) \<or> is_success (fst (note_route P e d c rq))"
  by (cases rq)
    (simp_all add: add_notes_def edit_notes_def get_all_notes_def delete_note_def
      update_note_ispinned_def search_notes_def Let_def split: sum.splits option.splits)

lemma get_user_answers:
  "explicit_error (fst (get_user e d c)) \<or> is_success (fst (get_user e d c)) \<or>
   fst (get_user e d c) = \<lparr>status = 401, body = None\<rparr>"
  by (simp add: get_user_def split: sum.splits option.splits)

text \<open>
  C10. When the store answers, \<^verbatim>\<open>/get-all-notes\<close> responds with exactly the notes
  whose owner is the user of the token, each once, and no unpinned note stands before
  a pinned one; the store is unchanged.
\<close>

theorem get_all_notes_owned_pinned_first:
  assumes "store_throws e Find = None"
  shows "\<exists>ns. get_all_notes e d c =
             (res_json 200
                (JObj [(''error'', JBool False),
                       (''notes'', JArr (map note_json ns)),
                       (''message'', JStr ''All notes retrieved successfully'')]),
              d) \<and>
           mset ns = filter_mset (\<lambda>n. userId n = u_id (c_user c)) (mset (db_notes d)) \<and>
           (\<forall>i j. i < j \<and> j < length ns \<and> isPinned (ns ! j) \<longrightarrow> isPinned (ns ! i))"
proof -
  define ns where "ns = sort_key (\<lambda>n. \<not> isPinned n)
                          (filter (\<lambda>n. userId n = u_id (c_user c)) (db_notes d))"
  have r: "get_all_notes e d c =
             (res_json 200
                (JObj [(''error'', JBool False),
                       (''notes'', JArr (map note_json ns)),
                       (''message'', JStr ''All notes retrieved successfully'')]),
              d)"
    by (simp add: get_all_notes_def Note_find_def assms ns_def)
  have m: "mset ns = filter_mset (\<lambda>n. userId n = u_id (c_user c)) (mset (db_notes d))"
    by (simp add: ns_def)
  have s: "sorted (map (\<lambda>n. \<not> isPinned n) ns)"
    by (simp add: ns_def)
  have p: "isPinned (ns ! i)" if "i < j" "j < length ns" "isPinned (ns ! j)" for i j
  proof -
    have "(\<not> isPinned (ns ! i)) \<le> (\<not> isPinned (ns ! j))"
      using sorted_nth_mono [OF s, of i j] that by simp
    with that(3) show ?thesis by simp
  qed
  show ?thesis using r m p by blast
qed

theorem get_all_notes_owned_pinned_first_witness:
  "\<exists>ns. get_all_notes (demo_env 1700000009000 []) demo_db (claims_of bob 1700000000200) =
             (res_json 200
                (JObj [(''error'', JBool False),
                       (''notes'', JArr (map note_json ns)),
                       (''message'', JStr ''All notes retrieved successfully'')]),
              demo_db) \<and>
        mset ns = {#bob_note, bob_pinned#} \<and>
        (\<forall>i j. i < j \<and> j < length ns \<and> isPinned (ns ! j) \<longrightarrow> isPinned (ns ! i))"
proof -
  have "store_throws (demo_env 1700000009000 []) Find = None"
    by (simp add: demo_env_def)
  from get_all_notes_owned_pinned_first [OF this, of demo_db "claims_of bob 1700000000200"]
  show ?thesis
    by (simp add: demo_db_def claims_of_def alice_note_def bob_note_def bob_pinned_def bob_def)
qed

subsection \<open>Ownership isolation\<close>

text \<open>
  Each note handler leaves the notes of the other users as they are, and every note
  in its response is one the user of the token owns.
\<close>

lemma add_notes_isolated:
  "others (u_id (c_user c)) (snd (add_notes e d c b)) = others (u_id (c_user c)) d \<and>
   owned_json (u_id (c_user c)) (fst (add_notes e d c b))"
  by (auto simp: add_notes_def Note_insert_def others_def owned_json_def Let_def
      split: option.splits if_splits)

lemma edit_notes_isolated:
  assumes "distinct (map n_id (db_notes d))"
  shows "others (u_id (c_user c)) (snd (edit_notes e d c noteId b)) = others (u_id (c_user c)) d \<and>
   owned_json (u_id (c_user c)) (fst (edit_notes e d c noteId b))"
proof (cases "Note_findOne e d noteId (u_id (c_user c))")
  case (Inl err)
  then show ?thesis
    by (simp add: edit_notes_def owned_json_def Let_def)
next
  case (Inr r)
  show ?thesis
  proof (cases r)
    case None
    with Inr show ?thesis
      by (simp add: edit_notes_def owned_json_def Let_def)
  next
    case (Some nt)
    with Inr have f: "Note_findOne e d noteId (u_id (c_user c)) = Inr (Some nt)" by simp
    note n = Note_findOne_SomeD [OF f]
    show ?thesis
    proof (cases "Note_save e d (assign_changes b nt)")
      case (Inl err)
      with f show ?thesis
        by (simp add: edit_notes_def owned_json_def Let_def)
    next
      case (Inr d')
      from Note_save_others [OF assms _ _ _ _ Inr, of nt "u_id (c_user c)"] n
      have "others (u_id (c_user c)) d' = others (u_id (c_user c)) d" by simp
      with f Inr n show ?thesis
        by (auto simp: edit_notes_def owned_json_def Let_def)
    qed
  qed
qed

lemma update_note_ispinned_isolated:
  assumes "distinct (map n_id (db_notes d))"
  shows "others (u_id (c_user c)) (snd (update_note_ispinned e d c noteId pinned)) =
           others (u_id (c_user c)) d \<and>
   owned_json (u_id (c_user c)) (fst (update_note_ispinned e d c noteId pinned))"
proof (cases pinned)
  case None
  then show ?thesis by (simp add: update_note_ispinned_def owned_json_def)
next
  case (Some v)
  show ?thesis
  proof (cases "Note_findOne e d noteId (u_id (c_user c))")
    case (Inl err)
    with Some show ?thesis
      by (simp add: update_note_ispinned_def owned_json_def)
  next
    case (Inr r)
    show ?thesis
    proof (cases r)
      case None
      with Inr Some show ?thesis
        by (simp add: update_note_ispinned_def owned_json_def)
    next
      case (Some nt)
      with Inr have f: "Note_findOne e d noteId (u_id (c_user c)) = Inr (Some nt)" by simp
      note n = Note_findOne_SomeD [OF f]
      show ?thesis
      proof (cases "Note_save e d (nt\<lparr>isPinned := v\<rparr>)")
        case (Inl err)
        with f \<open>pinned = Some v\<close> show ?thesis
          by (simp add: update_note_ispinned_def owned_json_def)
      next
        case (Inr d')
        from Note_save_others [OF assms _ _ _ _ Inr, of nt "u_id (c_user c)"] n
        have "others (u_id (c_user c)) d' = others (u_id (c_user c)) d" by simp
        with f Inr n \<open>pinned = Some v\<close> show ?thesis
          by (auto simp: update_note_ispinned_def owned_json_def)
      qed
    qed
  qed
qed

lemma delete_note_isolated:
  "others (u_id (c_user c)) (snd (delete_note e d c noteId)) = others (u_id (c_user c)) d \<and>
   owned_json (u_id (c_user c)) (fst (delete_note e d c noteId))"
  by (auto simp: delete_note_def Note_deleteOne_def others_def owned_json_def
      delete_first_others
      split: sum.splits option.splits if_splits)

lemma get_all_notes_isolated:
  "others (u_id (c_user c)) (snd (get_all_notes e d c)) = others (u_id (c_user c)) d \<and>
   owned_json (u_id (c_user c)) (fst (get_all_notes e d c))"
  by (auto simp: get_all_notes_def Note_find_def owned_json_def list_all_iff
      split: sum.splits option.splits)

lemma search_notes_isolated:
  "others (u_id (c_user c)) (snd (search_notes P e d c q)) = others (u_id (c_user c)) d \<and>
   owned_json (u_id (c_user c)) (fst (search_notes P e d c q))"
  by (auto simp: search_notes_def Note_find_def owned_json_def list_all_iff
      split: sum.splits option.splits)

lemma note_route_isolated:
  assumes "distinct (map n_id (db_notes d))"
  shows "others (u_id (c_user c)) (snd (note_route P e d c rq)) = others (u_id (c_user c)) d \<and>
   owned_json (u_id (c_user c)) (fst (note_route P e d c rq))"
  using assms
  by (cases rq)
    (simp_all add: add_notes_isolated edit_notes_isolated delete_note_isolated
      get_all_notes_isolated search_notes_isolated update_note_ispinned_isolated)

text \<open>
  C6. Let the object ids of the stored notes be distinct, as the store keeps them, and
  let \<open>n\<close> be a stored note whose owner is not the user of the validated token
  \<open>c\<close>. Whatever note request that user sends, with whatever note id, \<open>n\<close> is
  still in the store afterwards, the response does not carry it, and the notes of the
  other users are what they were, in the same order.
\<close>

theorem ownership_isolation:
  assumes ids: "distinct (map n_id (db_notes d))"
    and n: "n \<in> set (db_notes d)"
    and other: "userId n \<noteq> u_id (c_user c)"
  shows "n \<in> set (db_notes (snd (note_route P e d c rq))) \<and>
         note_json n \<notin> set (returned_notes (fst (note_route P e d c rq))) \<and>
         filter (\<lambda>x. userId x \<noteq> u_id (c_user c)) (db_notes (snd (note_route P e d c rq))) =
           filter (\<lambda>x. userId x \<noteq> u_id (c_user c)) (db_notes d)"
proof -
  note iso = note_route_isolated [OF ids, of c P e rq]
  from iso have fr: "filter (\<lambda>x. userId x \<noteq> u_id (c_user c)) (db_notes (snd (note_route P e d c rq))) =
           filter (\<lambda>x. userId x \<noteq> u_id (c_user c)) (db_notes d)"
    by (simp add: others_def)
  from n other have "n \<in> set (filter (\<lambda>x. userId x \<noteq> u_id (c_user c)) (db_notes d))"
    by simp
  with fr have "n \<in> set (filter (\<lambda>x. userId x \<noteq> u_id (c_user c))
                          (db_notes (snd (note_route P e d c rq))))"
    by simp
  then have a: "n \<in> set (db_notes (snd (note_route P e d c rq)))"
    by simp
  have b: "note_json n \<notin> set (returned_notes (fst (note_route P e d c rq)))"
  proof
    assume "note_json n \<in> set (returned_notes (fst (note_route P e d c rq)))"
    with iso obtain m where "note_json n = note_json m" "userId m = u_id (c_user c)"
      by (auto simp: owned_json_def list_all_iff)
    with other note_json_userId show False by metis
  qed
  show ?thesis using a b fr by simp
qed

theorem ownership_isolation_witness:
  "alice_note \<in> set (db_notes (snd (note_route demo_platform (demo_env 1700000009000 [])
       demo_db (claims_of bob 1700000000200) (DeleteNote (n_id alice_note))))) \<and>
   note_json alice_note \<notin> set (returned_notes (fst (note_route demo_platform
       (demo_env 1700000009000 []) demo_db (claims_of bob 1700000000200)
       (DeleteNote (n_id alice_note)))))"
proof -
  have ids: "distinct (map n_id (db_notes demo_db))"
    by (simp add: demo_db_def alice_note_def bob_note_def bob_pinned_def)
  have n: "alice_note \<in> set (db_notes demo_db)"
    by (simp add: demo_db_def)
  have other: "userId alice_note \<noteq> u_id (c_user (claims_of bob 1700000000200))"
    by (simp add: alice_note_def claims_of_def bob_def)
  from ownership_isolation [OF ids n other]
  show ?thesis by blast
qed

text \<open>The store keeps the object ids of the notes distinct through every note request.\<close>

lemma note_route_distinct_ids:
  assumes "distinct (map n_id (db_notes d))"
  shows "distinct (map n_id (db_notes (snd (note_route P e d c rq))))"
proof (cases rq)
  case (AddNotes b)
  with assms show ?thesis
    by (auto simp: add_notes_def Note_insert_def Let_def list_ex_iff split: option.splits)
next
  case (EditNotes noteId b)
  with assms show ?thesis
    by (auto simp: edit_notes_def Note_save_def Let_def
        split: option.splits sum.splits dest!: Note_findOne_SomeD
        intro!: replace_by_id_distinct)
next
  case GetAllNotes
  with assms show ?thesis
    by (auto simp: get_all_notes_def split: sum.splits)
next
  case (DeleteNote noteId)
  with assms show ?thesis
    by (auto simp: delete_note_def Note_deleteOne_def delete_first_distinct
        split: option.splits sum.splits if_splits)
next
  case (UpdateNoteIsPinned noteId pinned)
  with assms show ?thesis
    by (auto simp: update_note_ispinned_def Note_save_def
        split: option.splits sum.splits dest!: Note_findOne_SomeD
        intro!: replace_by_id_distinct)
next
  case (SearchNotes q)
  with assms show ?thesis
    by (auto simp: search_notes_def split: option.splits sum.splits)
qed

text \<open>
  The lookup by note id and owner never answers a note that another user owns,
  whatever the id asked for.
\<close>

lemma foreign_note_never_found:
  assumes "userId n \<noteq> uid"
  shows "Note_findOne e d noteId uid \<noteq> Inr (Some n)"
  using assms Note_findOne_SomeD [of e d noteId uid n] by auto

text \<open>
  The id of a request is cast before it is compared: the upper-case spelling of the id
  of one's own note finds that note.
\<close>

lemma upper_case_id_finds_own_note:
  "Note_findOne (demo_env 1700000009000 []) demo_db ''65F0000000000000000000B1'' (u_id bob) =
     Inr (Some bob_note)"
proof -
  have "isValidObjectId ''65F0000000000000000000B1''"
    by (simp add: isValidObjectId_def is_hex_def)
  moreover have "ObjectId ''65F0000000000000000000B1'' = n_id bob_note"
    by (simp add: ObjectId_def hex_lower_def bob_note_def)
  ultimately show ?thesis
    by (simp add: Note_findOne_def demo_env_def demo_db_def alice_note_def bob_note_def
        bob_pinned_def bob_def)
qed

end
